theory Spec2Isabelle
  imports Main
begin

section \<open>Effects, promises and JavaScript values\<close>

text \<open>
  The three components (RetractVote, ChatInput, AddChannelMemberModal) are React function
  components. Each handler is embedded as a function from its inputs (props, local state
  and the answers of the outside world) to the trace of effects it performs, in program
  order, together with the final state of the promise it builds.
\<close>

text \<open>A JavaScript value, as far as truthiness is concerned (numbers are integers here).\<close>

datatype jsval = JUndefined | JNull | JBool bool | JNumber int | JString string

fun truthy :: "jsval \<Rightarrow> bool" where
  "truthy JUndefined = False"
| "truthy JNull = False"
| "truthy (JBool b) = b"
| "truthy (JNumber n) = (n \<noteq> 0)"
| "truthy (JString s) = (s \<noteq> [])"

text \<open>The argument of \<^verbatim>\<open>toast({title, variant, duration})\<close>.\<close>

record toast_props =
  title :: string
  variant :: string
  duration :: nat

text \<open>
  The request body: \<^verbatim>\<open>JSON.stringify\<close> of an object literal whose members are strings,
  kept as the list of its members in source order.
\<close>

datatype body_init = JSON_stringify "(string \<times> string) list"

text \<open>The second argument of \<^verbatim>\<open>fetch\<close>, with the three members the source sets
  (\<open>http_method\<close> is the member \<^verbatim>\<open>method\<close>).\<close>

record RequestInit =
  http_method :: string
  headers :: "(string \<times> string) list"
  body :: body_init

text \<open>The SWR options object passed to \<^verbatim>\<open>useFrappeGetCall\<close>.\<close>

record swr_options =
  revalidateOnFocus :: bool
  revalidateIfStale :: bool
  revalidateOnReconnect :: bool

text \<open>
  \<^verbatim>\<open>interface FormProps { add_members: string[] | null }\<close>: \<open>None\<close> is \<^verbatim>\<open>null\<close>.
\<close>

record FormProps =
  add_members :: "string list option"

text \<open>
  A parameter object of an SDK call: member name and value, \<open>None\<close> for
  \<^verbatim>\<open>undefined\<close> (what \<^verbatim>\<open>message?.poll_id\<close> yields on a missing message or member).
\<close>

type_synonym params = "(string \<times> string option) list"

text \<open>
  Everything the code does to the outside world. The first three are the network calls:
  the SDK's GET hook (path, parameters, cache key, options), the SDK's POST call (path,
  parameters) and the browser's \<^verbatim>\<open>fetch\<close> (URL, init). The others are the toast, the
  \<^verbatim>\<open>addMessage\<close> and \<^verbatim>\<open>onClose\<close> props, the state setter of \<^verbatim>\<open>useState\<close>,
  \<^verbatim>\<open>console.log\<close> and the form library's \<^verbatim>\<open>reset\<close>.
\<close>

datatype effect =
    GetCall string params string swr_options
  | PostCall string params
  | Fetch string RequestInit
  | Toast toast_props
  | AddMessage string string
  | SetText string
  | ConsoleLog FormProps "string list option"
  | OnClose
  | Reset

fun is_network :: "effect \<Rightarrow> bool" where
  "is_network (GetCall _ _ _ _) = True"
| "is_network (PostCall _ _) = True"
| "is_network (Fetch _ _) = True"
| "is_network _ = False"

fun is_toast :: "effect \<Rightarrow> bool" where
  "is_toast (Toast _) = True"
| "is_toast _ = False"

text \<open>
  A promise that has run: the effects performed until it settled, and how it settled.
  A promise that ends \<open>Rejected\<close> with no handler attached is an unhandled rejection.
\<close>

datatype settled = Fulfilled | Rejected

type_synonym promise = "effect list \<times> settled"

text \<open>
  \<^verbatim>\<open>p.then(f)\<close>: \<open>f\<close> runs only when \<open>p\<close> is fulfilled, and the result settles as the
  promise \<open>f\<close> returns; a rejection of \<open>p\<close> passes through.
\<close>

definition promise_then :: "promise \<Rightarrow> (unit \<Rightarrow> promise) \<Rightarrow> promise" where
  "promise_then p f =
     (case p of
        (es, Fulfilled) \<Rightarrow> (case f () of (es', r) \<Rightarrow> (es @ es', r))
      | (es, Rejected) \<Rightarrow> (es, Rejected))"

text \<open>
  \<^verbatim>\<open>p.catch(f)\<close>: \<open>f\<close> runs only when \<open>p\<close> is rejected; a fulfilled \<open>p\<close> passes through.
\<close>

definition promise_catch :: "promise \<Rightarrow> (unit \<Rightarrow> promise) \<Rightarrow> promise" where
  "promise_catch p f =
     (case p of
        (es, Fulfilled) \<Rightarrow> (es, Fulfilled)
      | (es, Rejected) \<Rightarrow> (case f () of (es', r) \<Rightarrow> (es @ es', r)))"

text \<open>A callback body that performs effects and returns \<^verbatim>\<open>undefined\<close>.\<close>

definition returns :: "effect list \<Rightarrow> promise" where
  "returns es = (es, Fulfilled)"

definition toast :: "toast_props \<Rightarrow> effect list" where
  "toast t = [Toast t]"

definition setText :: "string \<Rightarrow> effect list" where
  "setText s = [SetText s]"

text \<open>
  The \<^verbatim>\<open>call\<close> function returned by \<^verbatim>\<open>useFrappePostCall(path)\<close>: it issues the POST, and
  its promise settles as the backend answers (third argument).
\<close>

definition useFrappePostCall :: "string \<Rightarrow> params \<Rightarrow> settled \<Rightarrow> promise" where
  "useFrappePostCall path ps answer = ([PostCall path ps], answer)"

text \<open>
  \<^verbatim>\<open>fetch\<close>: the promise is fulfilled with a response of any HTTP status, and rejected
  only when the request itself fails.
\<close>

datatype fetch_answer = Response nat | NetworkError

definition fetch :: "string \<Rightarrow> RequestInit \<Rightarrow> fetch_answer \<Rightarrow> promise" where
  "fetch url init answer =
     ([Fetch url init], case answer of Response _ \<Rightarrow> Fulfilled | NetworkError \<Rightarrow> Rejected)"

text \<open>
  The \<^verbatim>\<open>addMessage\<close> prop, of type \<^verbatim>\<open>(text, user) => Promise<void>\<close>: the call is
  recorded, and its promise settles as the parent decides (third argument).
\<close>

definition addMessage :: "string \<Rightarrow> string \<Rightarrow> settled \<Rightarrow> promise" where
  "addMessage t u answer = ([AddMessage t u], answer)"

section \<open>RetractVote\<close>

text \<open>
  The two members of \<^verbatim>\<open>Message\<close> the component reads. \<^verbatim>\<open>poll_id\<close> is \<open>None\<close> when
  the member is undefined.
\<close>

record Message =
  name :: string
  poll_id :: "string option"

text \<open>
  The members of \<^verbatim>\<open>Poll\<close> the component reads: the \<^verbatim>\<open>is_disabled\<close> flag of the poll
  document and the current user's votes.
\<close>

record RavenPoll =
  is_disabled :: jsval

record Poll =
  poll :: RavenPoll
  current_user_votes :: "string list"

text \<open>The hook's \<^verbatim>\<open>data\<close>, of type \<^verbatim>\<open>{ message: Poll }\<close>; \<open>None\<close> is a nullish member.\<close>

record get_poll_data =
  message :: "Poll option"

text \<open>
  What the component returns: the children of the fragment. The menu item carries its
  \<^verbatim>\<open>onClick\<close> handler, its \<^verbatim>\<open>disabled\<close> prop and its label.
\<close>

datatype vnode =
    ContextMenu_Item "settled \<Rightarrow> promise" bool string
  | ContextMenu_Separator

text \<open>A template literal prints \<^verbatim>\<open>undefined\<close> for an undefined value.\<close>

definition template :: "string option \<Rightarrow> string" where
  "template v = (case v of None \<Rightarrow> ''undefined'' | Some s \<Rightarrow> s)"

definition onRetractVote :: "Message option \<Rightarrow> settled \<Rightarrow> promise" where
  "onRetractVote msg answer =
     promise_catch
       (promise_then
          (useFrappePostCall ''raven.api.raven_poll.retract_vote''
             [(''poll_id'', Option.bind msg poll_id)] answer)
          (\<lambda>_. returns (toast \<lparr>title = ''Vote retracted'', variant = ''accent'',
                                 duration = 800\<rparr>)))
       (\<lambda>_. returns (toast \<lparr>title = ''Could not retract vote'', variant = ''destructive'',
                              duration = 800\<rparr>))"

text \<open>
  One render of the component. \<open>msg\<close> is the \<^verbatim>\<open>message\<close> prop and \<open>data\<close> what the GET
  hook currently returns (\<open>None\<close> while nothing has been fetched). The result is the hook
  call of the render and the returned markup (\<open>None\<close> for \<^verbatim>\<open>null\<close>).
\<close>

definition RetractVote ::
  "Message option \<Rightarrow> get_poll_data option \<Rightarrow> effect list \<times> vnode list option" where
  "RetractVote msg data =
     ([GetCall ''raven.api.raven_poll.get_poll''
         [(''message_id'', map_option name msg)]
         (''poll_data_'' @ template (Option.bind msg poll_id))
         \<lparr>revalidateOnFocus = False, revalidateIfStale = False,
          revalidateOnReconnect = False\<rparr>],
      (case data of
         None \<Rightarrow> None
       | Some d \<Rightarrow>
           (case message d of
              None \<Rightarrow> None
            | Some p \<Rightarrow>
                if length (current_user_votes p) > 0
                then Some [ContextMenu_Item (onRetractVote msg)
                             (if truthy (is_disabled (poll p)) then True else False)
                             ''Retract vote'',
                           ContextMenu_Separator]
                else None)))"

section \<open>ChatInput\<close>

definition user_id :: string where
  "user_id = ''patiladitya781@gmail.com''"

definition channel_id :: string where
  "channel_id = ''862bf4d1ce''"

text \<open>\<^verbatim>\<open>const [text, setText] = useState("")\<close>: the component's only local state.\<close>

record ChatInput_state =
  text_state :: string

definition ChatInput_init :: ChatInput_state where
  "ChatInput_init = \<lparr>text_state = ''''\<rparr>"

text \<open>The state at the next render: each \<^verbatim>\<open>setText\<close> of the trace replaces the text.\<close>

fun useState_after :: "ChatInput_state \<Rightarrow> effect list \<Rightarrow> ChatInput_state" where
  "useState_after s [] = s"
| "useState_after s (SetText t # es) = useState_after (s\<lparr>text_state := t\<rparr>) es"
| "useState_after s (_ # es) = useState_after s es"

definition onChange :: "string \<Rightarrow> effect list" where
  "onChange target_value = setText target_value"

text \<open>
  The submit handler, for the text of the current render, the answer to the request and
  the way the \<^verbatim>\<open>addMessage\<close> promise settles. The handler returns \<^verbatim>\<open>undefined\<close>; the
  promise modelled here is the chain it leaves behind, to which nothing else is attached.
\<close>

definition ChatInput_onSubmit :: "ChatInput_state \<Rightarrow> fetch_answer \<Rightarrow> settled \<Rightarrow> promise" where
  "ChatInput_onSubmit s fa aa =
     promise_then
       (promise_then
          (fetch ''http://localhost:8080/api/method/raven.messaging.doctype.message.message.send_message''
             \<lparr>http_method = ''POST'',
              headers = [(''Authorization'', ''token 70fc5baf0dbedeb:153d36b83606c05'')],
              body = JSON_stringify [(''channel_id'', channel_id), (''user_id'', user_id),
                                     (''text'', text_state s)]\<rparr>
             fa)
          (\<lambda>_. addMessage (text_state s) user_id aa))
       (\<lambda>_. returns (setText ''''))"

text \<open>
  The parts of the markup that depend on the state: the input's value and the submit
  button's \<^verbatim>\<open>isDisabled\<close> prop.
\<close>

record ChatInput_view =
  input_value :: string
  isDisabled :: bool

definition ChatInput :: "ChatInput_state \<Rightarrow> ChatInput_view" where
  "ChatInput s = \<lparr>input_value = text_state s, isDisabled = (length (text_state s) = 0)\<rparr>"

text \<open>
  A click on the submit button: a disabled button submits nothing, an enabled one
  submits the form, whose handler is \<open>ChatInput_onSubmit\<close>.
\<close>

definition click_submit :: "ChatInput_state \<Rightarrow> fetch_answer \<Rightarrow> settled \<Rightarrow> promise" where
  "click_submit s fa aa =
     (if isDisabled (ChatInput s) then ([], Fulfilled) else ChatInput_onSubmit s fa aa)"

section \<open>AddChannelMemberModal\<close>

definition defaultValues :: FormProps where
  "defaultValues = \<lparr>add_members = None\<rparr>"

text \<open>
  What one mounted modal keeps between renders: the form values held by the form library
  and the \<^verbatim>\<open>isOpen\<close> of the last committed render (\<open>None\<close> before the first), the
  dependency of the effect. The library's \<^verbatim>\<open>reset\<close> is the same function on every
  render, so \<^verbatim>\<open>isOpen\<close> is the only dependency that can change.
\<close>

record modal_instance =
  form :: FormProps
  deps :: "bool option"

definition mount :: modal_instance where
  "mount = \<lparr>form = defaultValues, deps = None\<rparr>"

text \<open>\<^verbatim>\<open>reset()\<close> without arguments puts the default values back.\<close>

definition reset :: "modal_instance \<Rightarrow> modal_instance \<times> effect list" where
  "reset inst = (inst\<lparr>form := defaultValues\<rparr>, [Reset])"

text \<open>
  \<^verbatim>\<open>useEffect(() => { reset() }, [isOpen, reset])\<close>, after the render with prop
  \<open>isOpen\<close>: the effect runs on the first render and whenever \<open>isOpen\<close> differs from
  the previous render's.
\<close>

definition useEffect_reset :: "modal_instance \<Rightarrow> bool \<Rightarrow> modal_instance \<times> effect list" where
  "useEffect_reset inst isOpen =
     (if deps inst = Some isOpen then (inst, [])
      else reset (inst\<lparr>deps := Some isOpen\<rparr>))"

text \<open>
  The submit handler. \<open>d\<close> is the submitted form value; \<^verbatim>\<open>members\<close> is the watched
  \<^verbatim>\<open>add_members\<close> of the render.
\<close>

definition AddChannelMemberModal_onSubmit ::
  "modal_instance \<Rightarrow> FormProps \<Rightarrow> modal_instance \<times> effect list" where
  "AddChannelMemberModal_onSubmit inst d =
     (inst, [ConsoleLog d (add_members (form inst)), OnClose])"

section \<open>All entry points\<close>

text \<open>
  Every place where the three components run code: a render, an effect after a render,
  or an event handler, each with its inputs.
\<close>

datatype ui_event =
    Render_RetractVote "Message option" "get_poll_data option"
  | Click_RetractVote "Message option" settled
  | Render_ChatInput ChatInput_state
  | Change_ChatInput string
  | Submit_ChatInput ChatInput_state fetch_answer settled
  | Effect_AddChannelMemberModal modal_instance bool
  | Submit_AddChannelMemberModal modal_instance FormProps

fun effects_of :: "ui_event \<Rightarrow> effect list" where
  "effects_of (Render_RetractVote msg data) = fst (RetractVote msg data)"
| "effects_of (Click_RetractVote msg answer) = fst (onRetractVote msg answer)"
| "effects_of (Render_ChatInput s) = []"
| "effects_of (Change_ChatInput v) = onChange v"
| "effects_of (Submit_ChatInput s fa aa) = fst (ChatInput_onSubmit s fa aa)"
| "effects_of (Effect_AddChannelMemberModal inst isOpen) = snd (useEffect_reset inst isOpen)"
| "effects_of (Submit_AddChannelMemberModal inst d) = snd (AddChannelMemberModal_onSubmit inst d)"

section \<open>The traces of the two asynchronous handlers\<close>

text \<open>
  The retract-vote handler always performs the POST and then exactly one toast; its
  promise is fulfilled either way, because the rejection handler is the last link.
\<close>

lemma onRetractVote_run:
  "onRetractVote msg answer =
     ([PostCall ''raven.api.raven_poll.retract_vote'' [(''poll_id'', Option.bind msg poll_id)],
       Toast (case answer of
                Fulfilled \<Rightarrow> \<lparr>title = ''Vote retracted'', variant = ''accent'', duration = 800\<rparr>
              | Rejected \<Rightarrow> \<lparr>title = ''Could not retract vote'', variant = ''destructive'',
                              duration = 800\<rparr>)],
      Fulfilled)"
  by (cases answer)
     (simp_all add: onRetractVote_def promise_catch_def promise_then_def useFrappePostCall_def
        returns_def toast_def)

text \<open>When the request itself fails, the chat handler stops after the request.\<close>

lemma ChatInput_onSubmit_NetworkError:
  "ChatInput_onSubmit s NetworkError aa =
     ([Fetch ''http://localhost:8080/api/method/raven.messaging.doctype.message.message.send_message''
         \<lparr>http_method = ''POST'',
          headers = [(''Authorization'', ''token 70fc5baf0dbedeb:153d36b83606c05'')],
          body = JSON_stringify [(''channel_id'', channel_id), (''user_id'', user_id),
                                 (''text'', text_state s)]\<rparr>],
      Rejected)"
  by (simp add: ChatInput_onSubmit_def promise_then_def fetch_def)

text \<open>
  When a response arrives (of any status), \<^verbatim>\<open>addMessage\<close> is called, and the text is
  cleared only if the promise of \<^verbatim>\<open>addMessage\<close> is fulfilled.
\<close>

lemma ChatInput_onSubmit_Response:
  "ChatInput_onSubmit s (Response st) aa =
     ([Fetch ''http://localhost:8080/api/method/raven.messaging.doctype.message.message.send_message''
         \<lparr>http_method = ''POST'',
          headers = [(''Authorization'', ''token 70fc5baf0dbedeb:153d36b83606c05'')],
          body = JSON_stringify [(''channel_id'', channel_id), (''user_id'', user_id),
                                 (''text'', text_state s)]\<rparr>,
       AddMessage (text_state s) user_id] @
      (case aa of Fulfilled \<Rightarrow> [SetText ''''] | Rejected \<Rightarrow> []),
      aa)"
  by (cases aa)
     (simp_all add: ChatInput_onSubmit_def promise_then_def fetch_def addMessage_def
        returns_def setText_def)

lemma click_submit_enabled:
  "text_state s \<noteq> [] \<Longrightarrow> click_submit s fa aa = ChatInput_onSubmit s fa aa"
  by (simp add: click_submit_def ChatInput_def)

text \<open>Whatever the answers, the handler issues one request, built from the text.\<close>

lemma ChatInput_onSubmit_request:
  "filter is_network (fst (ChatInput_onSubmit s fa aa)) =
     [Fetch ''http://localhost:8080/api/method/raven.messaging.doctype.message.message.send_message''
        \<lparr>http_method = ''POST'',
         headers = [(''Authorization'', ''token 70fc5baf0dbedeb:153d36b83606c05'')],
         body = JSON_stringify [(''channel_id'', channel_id), (''user_id'', user_id),
                                (''text'', text_state s)]\<rparr>]"
  by (cases fa; cases aa)
     (simp_all add: ChatInput_onSubmit_NetworkError ChatInput_onSubmit_Response)

section \<open>ChatInput: submit, callback and clearing\<close>

text \<open>
  Claim C1, as stated: clicking submit with non-empty text invokes \<^verbatim>\<open>addMessage\<close> with
  the current text and the user id, and afterwards the text state is the empty string.
  This fails when the request is rejected: with text \<^verbatim>\<open>hi\<close> and a network error,
  \<^verbatim>\<open>addMessage\<close> is never called and the text stays \<^verbatim>\<open>hi\<close>.
\<close>

theorem C1_submit_network_error_counterexample:
  "AddMessage ''hi'' user_id
     \<notin> set (fst (click_submit \<lparr>text_state = ''hi''\<rparr> NetworkError Fulfilled))
   \<and> text_state (useState_after \<lparr>text_state = ''hi''\<rparr>
        (fst (click_submit \<lparr>text_state = ''hi''\<rparr> NetworkError Fulfilled))) = ''hi''"
  by (simp add: click_submit_def ChatInput_def ChatInput_onSubmit_NetworkError)

text \<open>
  Claim C1, amended: clicking submit with non-empty text issues the request, a POST to the
  \<^verbatim>\<open>send_message\<close> URL with the token header and the JSON body of the channel id, the
  user id and the current text, however the backend answers. When the promise of
  \<^verbatim>\<open>fetch\<close> is fulfilled (a response of any status), \<^verbatim>\<open>addMessage\<close> is invoked next,
  once, with the current text and the user id; when the promise returned by
  \<^verbatim>\<open>addMessage\<close> is fulfilled too, \<^verbatim>\<open>setText("")\<close> follows, and the text state is
  the empty string afterwards. When the promise of \<^verbatim>\<open>fetch\<close> is rejected, the request
  is all that happens.
\<close>

theorem C1_submit_invokes_addMessage_then_clears:
  assumes "text_state s \<noteq> []"
  shows "fst (click_submit s fa aa) =
           Fetch ''http://localhost:8080/api/method/raven.messaging.doctype.message.message.send_message''
             \<lparr>http_method = ''POST'',
              headers = [(''Authorization'', ''token 70fc5baf0dbedeb:153d36b83606c05'')],
              body = JSON_stringify [(''channel_id'', ''862bf4d1ce''),
                                     (''user_id'', ''patiladitya781@gmail.com''),
                                     (''text'', text_state s)]\<rparr> #
           (case fa of
              NetworkError \<Rightarrow> []
            | Response st \<Rightarrow>
                AddMessage (text_state s) user_id #
                  (if aa = Fulfilled then [SetText ''''] else []))
         \<and> text_state (useState_after s (fst (click_submit s (Response st') Fulfilled))) = ''''"
proof
  from assms have c: "click_submit s fa aa = ChatInput_onSubmit s fa aa"
    by (rule click_submit_enabled)
  show "fst (click_submit s fa aa) =
           Fetch ''http://localhost:8080/api/method/raven.messaging.doctype.message.message.send_message''
             \<lparr>http_method = ''POST'',
              headers = [(''Authorization'', ''token 70fc5baf0dbedeb:153d36b83606c05'')],
              body = JSON_stringify [(''channel_id'', ''862bf4d1ce''),
                                     (''user_id'', ''patiladitya781@gmail.com''),
                                     (''text'', text_state s)]\<rparr> #
           (case fa of
              NetworkError \<Rightarrow> []
            | Response st \<Rightarrow>
                AddMessage (text_state s) user_id #
                  (if aa = Fulfilled then [SetText ''''] else []))"
    unfolding c
    by (cases fa; cases aa)
       (simp_all add: ChatInput_onSubmit_NetworkError ChatInput_onSubmit_Response
          channel_id_def user_id_def)
next
  from assms
  have "click_submit s (Response st') Fulfilled = ChatInput_onSubmit s (Response st') Fulfilled"
    by (rule click_submit_enabled)
  then show "text_state (useState_after s (fst (click_submit s (Response st') Fulfilled))) = ''''"
    by (simp add: ChatInput_onSubmit_Response)
qed

theorem C1_submit_invokes_addMessage_then_clears_witness:
  "text_state \<lparr>text_state = ''hi''\<rparr> \<noteq> []
   \<and> fst (click_submit \<lparr>text_state = ''hi''\<rparr> (Response 200) Fulfilled) =
       [Fetch ''http://localhost:8080/api/method/raven.messaging.doctype.message.message.send_message''
          \<lparr>http_method = ''POST'',
           headers = [(''Authorization'', ''token 70fc5baf0dbedeb:153d36b83606c05'')],
           body = JSON_stringify [(''channel_id'', ''862bf4d1ce''),
                                  (''user_id'', ''patiladitya781@gmail.com''),
                                  (''text'', ''hi'')]\<rparr>,
        AddMessage ''hi'' user_id, SetText '''']
   \<and> text_state (useState_after \<lparr>text_state = ''hi''\<rparr>
        (fst (click_submit \<lparr>text_state = ''hi''\<rparr> (Response 200) Fulfilled))) = ''''"
  using C1_submit_invokes_addMessage_then_clears
          [of "\<lparr>text_state = ''hi''\<rparr>" "Response 200" Fulfilled 200]
  by simp

section \<open>Errors of network calls\<close>

text \<open>
  Claim C2, as stated: for every network call, an error is caught at the call site and
  shown as a toast, and no rejection goes unhandled. This fails for the chat submit
  handler: when its request is rejected, the chain it built ends rejected, with no
  handler attached, and no toast is shown.
\<close>

theorem C2_chat_submit_rejection_unhandled_counterexample:
  "snd (ChatInput_onSubmit \<lparr>text_state = ''hi''\<rparr> NetworkError Fulfilled) = Rejected
   \<and> filter is_toast (fst (ChatInput_onSubmit \<lparr>text_state = ''hi''\<rparr> NetworkError Fulfilled)) = []"
  by (simp add: ChatInput_onSubmit_NetworkError)

text \<open>
  Claim C2, amended: an error of the \<^verbatim>\<open>retract_vote\<close> call is caught at the call site and
  shown as one generic toast (\<^verbatim>\<open>Could not retract vote\<close>); the promise of
  \<^verbatim>\<open>onRetractVote\<close> is fulfilled however the call settles, so its rejection never goes
  unhandled.
\<close>

theorem C2_retract_vote_error_caught_and_toasted:
  "snd (onRetractVote msg answer) = Fulfilled
   \<and> filter is_toast (fst (onRetractVote msg Rejected)) =
       [Toast \<lparr>title = ''Could not retract vote'', variant = ''destructive'', duration = 800\<rparr>]"
  by (simp add: onRetractVote_run)

section \<open>RetractVote: the menu item and its click\<close>

text \<open>
  Claim C3: the component renders something exactly when poll data has been fetched
  (\<open>data\<close> and its \<^verbatim>\<open>message\<close> are present) and the current user's vote list is
  non-empty, and \<^verbatim>\<open>null\<close> otherwise. What it renders then is the menu item labelled
  \<^verbatim>\<open>Retract vote\<close>, with \<^verbatim>\<open>onRetractVote\<close> as its \<^verbatim>\<open>onClick\<close> handler and the
  truthiness of \<^verbatim>\<open>is_disabled\<close> as its \<^verbatim>\<open>disabled\<close> prop, followed by a separator.
  Every render calls the GET hook on \<^verbatim>\<open>raven.api.raven_poll.get_poll\<close> with the
  message's name. Running the handler issues exactly one network call, the POST to
  \<^verbatim>\<open>raven.api.raven_poll.retract_vote\<close> with the message's \<^verbatim>\<open>poll_id\<close>, however the
  backend answers.
\<close>

theorem C3_retract_item_rendered_iff_voted:
  "(snd (RetractVote msg data) \<noteq> None) =
     (\<exists>d p. data = Some d \<and> message d = Some p \<and> current_user_votes p \<noteq> [])
   \<and> (\<forall>d p. data = Some d \<and> message d = Some p \<and> current_user_votes p \<noteq> [] \<longrightarrow>
         snd (RetractVote msg data) =
           Some [ContextMenu_Item (onRetractVote msg) (truthy (is_disabled (poll p)))
                   ''Retract vote'',
                 ContextMenu_Separator])
   \<and> fst (RetractVote msg data) =
       [GetCall ''raven.api.raven_poll.get_poll'' [(''message_id'', map_option name msg)]
          (''poll_data_'' @ template (Option.bind msg poll_id))
          \<lparr>revalidateOnFocus = False, revalidateIfStale = False,
           revalidateOnReconnect = False\<rparr>]
   \<and> (\<forall>answer. filter is_network (fst (onRetractVote msg answer)) =
         [PostCall ''raven.api.raven_poll.retract_vote''
            [(''poll_id'', Option.bind msg poll_id)]])"
proof (intro conjI allI impI)
  show "(snd (RetractVote msg data) \<noteq> None) =
     (\<exists>d p. data = Some d \<and> message d = Some p \<and> current_user_votes p \<noteq> [])"
    by (auto simp: RetractVote_def split: option.splits)
next
  fix d p
  assume "data = Some d \<and> message d = Some p \<and> current_user_votes p \<noteq> []"
  then show "snd (RetractVote msg data) =
           Some [ContextMenu_Item (onRetractVote msg) (truthy (is_disabled (poll p)))
                   ''Retract vote'',
                 ContextMenu_Separator]"
    by (simp add: RetractVote_def)
next
  show "fst (RetractVote msg data) =
       [GetCall ''raven.api.raven_poll.get_poll'' [(''message_id'', map_option name msg)]
          (''poll_data_'' @ template (Option.bind msg poll_id))
          \<lparr>revalidateOnFocus = False, revalidateIfStale = False,
           revalidateOnReconnect = False\<rparr>]"
    by (simp add: RetractVote_def)
next
  fix answer
  show "filter is_network (fst (onRetractVote msg answer)) =
         [PostCall ''raven.api.raven_poll.retract_vote''
            [(''poll_id'', Option.bind msg poll_id)]]"
    by (simp add: onRetractVote_run)
qed

theorem C3_retract_item_rendered_iff_voted_witness:
  "snd (RetractVote (Some \<lparr>name = ''m1'', poll_id = Some ''p1''\<rparr>)
         (Some \<lparr>message = Some \<lparr>poll = \<lparr>is_disabled = JNumber 0\<rparr>,
                                    current_user_votes = [''yes'']\<rparr>\<rparr>)) =
     Some [ContextMenu_Item (onRetractVote (Some \<lparr>name = ''m1'', poll_id = Some ''p1''\<rparr>))
             False ''Retract vote'', ContextMenu_Separator]
   \<and> filter is_network
        (fst (onRetractVote (Some \<lparr>name = ''m1'', poll_id = Some ''p1''\<rparr>) Rejected)) =
       [PostCall ''raven.api.raven_poll.retract_vote'' [(''poll_id'', Some ''p1'')]]"
proof -
  let ?m = "Some \<lparr>name = ''m1'', poll_id = Some ''p1''\<rparr>"
  let ?p = "\<lparr>poll = \<lparr>is_disabled = JNumber 0\<rparr>, current_user_votes = [''yes'']\<rparr>"
  let ?d = "\<lparr>message = Some ?p\<rparr>"
  note c3 = C3_retract_item_rendered_iff_voted [of ?m "Some ?d"]
  have v: "Some ?d = Some ?d \<and> message ?d = Some ?p \<and> current_user_votes ?p \<noteq> []"
    by simp
  from c3 v have r: "snd (RetractVote ?m (Some ?d)) =
      Some [ContextMenu_Item (onRetractVote ?m) (truthy (is_disabled (poll ?p)))
              ''Retract vote'', ContextMenu_Separator]"
    by blast
  from c3 have k: "filter is_network (fst (onRetractVote ?m Rejected)) =
      [PostCall ''raven.api.raven_poll.retract_vote'' [(''poll_id'', Option.bind ?m poll_id)]]"
    by blast
  from r k show ?thesis by simp
qed

text \<open>
  Claim C8: whenever the menu item is rendered, its \<^verbatim>\<open>disabled\<close> prop is true when the
  fetched poll's \<^verbatim>\<open>is_disabled\<close> is truthy and false when it is falsy.
\<close>

theorem C8_item_disabled_iff_flag_truthy:
  assumes "snd (RetractVote msg data) = Some (ContextMenu_Item h dis lbl # rest)"
    and "data = Some d" and "message d = Some p"
  shows "dis = truthy (is_disabled (poll p))"
  using assms by (simp add: RetractVote_def split: if_splits)

theorem C8_item_disabled_iff_flag_truthy_witness:
  "snd (RetractVote None
         (Some \<lparr>message = Some \<lparr>poll = \<lparr>is_disabled = JNumber 1\<rparr>,
                                    current_user_votes = [''yes'']\<rparr>\<rparr>)) =
     Some (ContextMenu_Item (onRetractVote None) True ''Retract vote'' # [ContextMenu_Separator])
   \<and> message \<lparr>message = Some \<lparr>poll = \<lparr>is_disabled = JNumber 1\<rparr>,
                                   current_user_votes = [''yes'']\<rparr>\<rparr> =
       Some \<lparr>poll = \<lparr>is_disabled = JNumber 1\<rparr>, current_user_votes = [''yes'']\<rparr>
   \<and> True = truthy (is_disabled (poll \<lparr>poll = \<lparr>is_disabled = JNumber 1\<rparr>,
                                          current_user_votes = [''yes'']\<rparr>))"
proof -
  let ?p = "\<lparr>poll = \<lparr>is_disabled = JNumber 1\<rparr>, current_user_votes = [''yes'']\<rparr>"
  let ?d = "\<lparr>message = Some ?p\<rparr>"
  have r: "snd (RetractVote None (Some ?d)) =
      Some (ContextMenu_Item (onRetractVote None) True ''Retract vote'' # [ContextMenu_Separator])"
    by (simp add: RetractVote_def)
  have m: "message ?d = Some ?p" by simp
  from C8_item_disabled_iff_flag_truthy [OF r refl m] r m show ?thesis by simp
qed

section \<open>ChatInput: the request\<close>

text \<open>
  Claim C4: the component's local state is one text string, and the submit handler posts
  it to one fixed endpoint: whatever the text and the answers, the only network call is
  one POST to the \<^verbatim>\<open>send_message\<close> URL, and the \<^verbatim>\<open>text\<close> member of its JSON body is
  exactly the text of the state.
\<close>

theorem C4_submit_posts_text_to_fixed_endpoint:
  "s = \<lparr>text_state = text_state s\<rparr>
   \<and> filter is_network (fst (ChatInput_onSubmit s fa aa)) =
       [Fetch ''http://localhost:8080/api/method/raven.messaging.doctype.message.message.send_message''
          \<lparr>http_method = ''POST'',
           headers = [(''Authorization'', ''token 70fc5baf0dbedeb:153d36b83606c05'')],
           body = JSON_stringify [(''channel_id'', ''862bf4d1ce''),
                                  (''user_id'', ''patiladitya781@gmail.com''),
                                  (''text'', text_state s)]\<rparr>]"
  by (simp add: ChatInput_onSubmit_request channel_id_def user_id_def)

text \<open>
  Claim C10: the request of the submit handler depends on the text only. Two submissions
  with the same text issue identical requests, whatever the answers of the backend and of
  \<^verbatim>\<open>addMessage\<close>; and the URL, the headers (with the Authorization token) and the
  \<^verbatim>\<open>channel_id\<close> and \<^verbatim>\<open>user_id\<close> members are the same constants for every text.
\<close>

theorem C10_request_depends_only_on_text:
  assumes "text_state s1 = text_state s2"
  shows "filter is_network (fst (ChatInput_onSubmit s1 fa1 aa1)) =
           filter is_network (fst (ChatInput_onSubmit s2 fa2 aa2))
         \<and> (\<exists>url hdrs c u. \<forall>t fa aa.
               filter is_network (fst (ChatInput_onSubmit \<lparr>text_state = t\<rparr> fa aa)) =
                 [Fetch url \<lparr>http_method = ''POST'', headers = hdrs,
                    body = JSON_stringify [(''channel_id'', c), (''user_id'', u), (''text'', t)]\<rparr>])"
proof
  from assms show "filter is_network (fst (ChatInput_onSubmit s1 fa1 aa1)) =
           filter is_network (fst (ChatInput_onSubmit s2 fa2 aa2))"
    by (simp add: ChatInput_onSubmit_request)
next
  have "\<forall>t fa aa.
          filter is_network (fst (ChatInput_onSubmit \<lparr>text_state = t\<rparr> fa aa)) =
            [Fetch ''http://localhost:8080/api/method/raven.messaging.doctype.message.message.send_message''
               \<lparr>http_method = ''POST'',
                headers = [(''Authorization'', ''token 70fc5baf0dbedeb:153d36b83606c05'')],
                body = JSON_stringify [(''channel_id'', channel_id), (''user_id'', user_id),
                                       (''text'', t)]\<rparr>]"
    by (simp add: ChatInput_onSubmit_request)
  then show "\<exists>url hdrs c u. \<forall>t fa aa.
               filter is_network (fst (ChatInput_onSubmit \<lparr>text_state = t\<rparr> fa aa)) =
                 [Fetch url \<lparr>http_method = ''POST'', headers = hdrs,
                    body = JSON_stringify [(''channel_id'', c), (''user_id'', u), (''text'', t)]\<rparr>]"
    by blast
qed

theorem C10_request_depends_only_on_text_witness:
  "text_state \<lparr>text_state = ''hi''\<rparr> = text_state \<lparr>text_state = ''hi''\<rparr>
   \<and> filter is_network (fst (ChatInput_onSubmit \<lparr>text_state = ''hi''\<rparr> NetworkError Rejected)) =
       filter is_network (fst (ChatInput_onSubmit \<lparr>text_state = ''hi''\<rparr> (Response 200) Fulfilled))"
  using C10_request_depends_only_on_text
          [of "\<lparr>text_state = ''hi''\<rparr>" "\<lparr>text_state = ''hi''\<rparr>" NetworkError Rejected
              "Response 200" Fulfilled]
  by simp

section \<open>AddChannelMemberModal\<close>

text \<open>
  Claim C5: the form value has the single member \<^verbatim>\<open>add_members\<close> (a list or null),
  and the submit handler neither calls the backend nor changes the form: for every
  submitted value it leaves the instance as it is, and all it does is log the value and
  call the \<^verbatim>\<open>onClose\<close> prop.
\<close>

theorem C5_modal_submit_no_backend_call:
  "d = \<lparr>add_members = add_members d\<rparr>
   \<and> fst (AddChannelMemberModal_onSubmit inst d) = inst
   \<and> snd (AddChannelMemberModal_onSubmit inst d) =
       [ConsoleLog d (add_members (form inst)), OnClose]
   \<and> filter is_network (snd (AddChannelMemberModal_onSubmit inst d)) = []"
  by (simp add: AddChannelMemberModal_onSubmit_def)

text \<open>
  Claim C9: whenever \<^verbatim>\<open>isOpen\<close> differs from the previous render's (or on the first
  render), the effect resets the form to its default values: \<^verbatim>\<open>add_members\<close> is null
  afterwards, whatever was selected before.
\<close>

theorem C9_isOpen_change_resets_form:
  assumes "deps inst \<noteq> Some isOpen"
  shows "form (fst (useEffect_reset inst isOpen)) = defaultValues
         \<and> add_members (form (fst (useEffect_reset inst isOpen))) = None
         \<and> snd (useEffect_reset inst isOpen) = [Reset]"
  using assms by (simp add: useEffect_reset_def reset_def defaultValues_def)

theorem C9_isOpen_change_resets_form_witness:
  "deps \<lparr>form = \<lparr>add_members = Some [''alice'']\<rparr>, deps = Some False\<rparr> \<noteq> Some True
   \<and> add_members (form (fst (useEffect_reset
        \<lparr>form = \<lparr>add_members = Some [''alice'']\<rparr>, deps = Some False\<rparr> True))) = None"
  using C9_isOpen_change_resets_form
          [of "\<lparr>form = \<lparr>add_members = Some [''alice'']\<rparr>, deps = Some False\<rparr>" True]
  by (simp add: defaultValues_def)

section \<open>Network calls of all entry points\<close>

text \<open>
  Claim C6: every network call of every entry point is one of three: the GET hook on
  \<^verbatim>\<open>raven.api.raven_poll.get_poll\<close> and the POST call on
  \<^verbatim>\<open>raven.api.raven_poll.retract_vote\<close>, both through the SDK with no parameter other
  than the message name or the poll id (no token is passed), and the \<^verbatim>\<open>fetch\<close> of
  \<^verbatim>\<open>raven.messaging.doctype.message.message.send_message\<close>, whose only header is
  Authorization with a \<^verbatim>\<open>token\<close> value.
\<close>

theorem C6_only_three_api_paths:
  "\<forall>e \<in> set (effects_of ev). is_network e \<longrightarrow>
     (\<exists>m k. e = GetCall ''raven.api.raven_poll.get_poll'' [(''message_id'', m)] k
                 \<lparr>revalidateOnFocus = False, revalidateIfStale = False,
                  revalidateOnReconnect = False\<rparr>)
   \<or> (\<exists>p. e = PostCall ''raven.api.raven_poll.retract_vote'' [(''poll_id'', p)])
   \<or> (\<exists>b. e = Fetch (''http://localhost:8080/api/method/'' @
                        ''raven.messaging.doctype.message.message.send_message'')
               \<lparr>http_method = ''POST'',
                headers = [(''Authorization'', ''token '' @ ''70fc5baf0dbedeb:153d36b83606c05'')],
                body = b\<rparr>)"
proof (cases ev)
  case (Render_RetractVote msg data)
  then show ?thesis by (simp add: RetractVote_def)
next
  case (Click_RetractVote msg answer)
  then show ?thesis by (simp add: onRetractVote_run)
next
  case (Render_ChatInput s)
  then show ?thesis by simp
next
  case (Change_ChatInput v)
  then show ?thesis by (simp add: onChange_def setText_def)
next
  case (Submit_ChatInput s fa aa)
  then show ?thesis
    by (cases fa; cases aa)
       (simp_all add: ChatInput_onSubmit_NetworkError ChatInput_onSubmit_Response)
next
  case (Effect_AddChannelMemberModal inst isOpen)
  then show ?thesis by (simp add: useEffect_reset_def reset_def)
next
  case (Submit_AddChannelMemberModal inst d)
  then show ?thesis by (simp add: AddChannelMemberModal_onSubmit_def)
qed

theorem C6_only_three_api_paths_witness:
  "PostCall ''raven.api.raven_poll.retract_vote'' [(''poll_id'', None)]
     \<in> set (effects_of (Click_RetractVote None Rejected))
   \<and> is_network (PostCall ''raven.api.raven_poll.retract_vote'' [(''poll_id'', None)])
   \<and> (\<exists>p. PostCall ''raven.api.raven_poll.retract_vote'' [(''poll_id'', None)] =
            PostCall ''raven.api.raven_poll.retract_vote'' [(''poll_id'', p)])"
  using C6_only_three_api_paths [of "Click_RetractVote None Rejected"]
  by (simp add: onRetractVote_run)

text \<open>
  Claim C7: each of the two handlers issues its network call exactly once per
  invocation (a click on the submit button at most once), and the calls issued are the
  same whether the call fails or succeeds: nothing is issued again after a failure.
\<close>

theorem C7_one_call_per_invocation:
  "length (filter is_network (fst (onRetractVote msg answer))) = 1
   \<and> length (filter is_network (fst (ChatInput_onSubmit s fa aa))) = 1
   \<and> length (filter is_network (fst (click_submit s fa aa))) \<le> 1
   \<and> filter is_network (fst (onRetractVote msg Rejected)) =
       filter is_network (fst (onRetractVote msg Fulfilled))
   \<and> filter is_network (fst (ChatInput_onSubmit s NetworkError aa)) =
       filter is_network (fst (ChatInput_onSubmit s (Response st) aa'))"
  by (simp add: onRetractVote_run ChatInput_onSubmit_request click_submit_def)

end
